theory Spec2Isabelle
  imports Complex_Main
begin

section \<open>Data model of a Chord node (src/app/ChordNode.ts)\<close>

text \<open>
  A \<open>Node\<close> of the source is an object \<open>{id, host, port}\<close> whose fields are nullable;
  \<open>None\<close> stands for \<open>null\<close>.  A variable or table slot that may hold the JavaScript value
  \<open>undefined\<close> instead of a node object has type \<open>node option\<close>, with \<open>None\<close> for
  \<open>undefined\<close>: reading a property of it raises \<open>TypeError\<close>.
\<close>

datatype error = TypeError | RpcError | NotImplemented | ProcessExit

record node =
  nodeId :: "int option"
  nodeHost :: "string option"
  nodePort :: "int option"

record fingerTableEntry =
  start :: "int option"
  successor :: "node option"

record chordNode =
  selfId :: "int option"
  selfHost :: string
  selfPort :: int
  knownId :: "int option"
  knownHost :: string
  knownPort :: int
  fingerTable :: "fingerTableEntry list"
  successorTable :: "node option list"
  predecessor :: node

text \<open>Modelled from the spec: the sentinel \<open>NULL_NODE = (id=null, host=null, port=null)\<close>
  of the utilities module, which is not part of the sources at hand.\<close>

definition NULL_NODE :: node where
  "NULL_NODE = \<lparr>nodeId = None, nodeHost = None, nodePort = None\<rparr>"

text \<open>The requests a client stub obtained from \<open>connect(peer)\<close> can send.\<close>

datatype request =
    FindSuccessorRemoteHelper "int option" node
  | GetSuccessorRemoteHelper node
  | ClosestPrecedingFingerRemoteHelper "int option" node
  | GetPredecessor "node option"
  | SetPredecessor node
  | UpdateFingerTable node nat

text \<open>
  Everything the node imports from the utilities module, and the network behind
  \<open>connect\<close>, is a parameter of the model.  The network is an oracle with a state of its own
  (\<open>'w\<close>): \<open>rpc env peer request w\<close> is the outcome of the awaited call
  \<open>connect(peer).request\<close>, \<open>None\<close> when the call rejects and \<open>Some n\<close> when it replies with
  the node \<open>n\<close> (for a call that replies with the empty message only the distinction
  matters), together with the network's next state.  Modelled from the spec: \<open>connect\<close>
  resolves a peer's address to a client stub and \<open>handleGRPCErrors\<close> logs a record; neither
  raises for a node object.  The functions below run one task of one node from start to
  end; what other tasks do to the node at a suspension point is outside.
\<close>

record 'w env =
  HASH_BIT_LENGTH :: nat
  DEBUGGING_LOCAL :: bool
  isInModuloRange :: "int option \<Rightarrow> int option \<Rightarrow> bool \<Rightarrow> int option \<Rightarrow> bool \<Rightarrow> bool"
  computeHostPortHash :: "string \<Rightarrow> int \<Rightarrow> int"
  rpc :: "node \<Rightarrow> request \<Rightarrow> 'w \<Rightarrow> node option \<times> 'w"

text \<open>Modelled from the spec: \<open>isInModuloRange(value, low, lowInclusive, high, highInclusive)\<close>
  of the utilities module, section 4.1: for \<open>low = high\<close> the arc is the whole ring when an
  endpoint is inclusive and empty otherwise; for \<open>low < high\<close> a standard interval; for
  \<open>low > high\<close> the arc wraps through 0.\<close>

definition isInModuloRangeInt :: "int \<Rightarrow> int \<Rightarrow> bool \<Rightarrow> int \<Rightarrow> bool \<Rightarrow> bool" where
  "isInModuloRangeInt v low lowInclusive high highInclusive =
     (if low = high then lowInclusive \<or> highInclusive
      else if low < high then
        (if lowInclusive then low \<le> v else low < v) \<and> (if highInclusive then v \<le> high else v < high)
      else
        (if lowInclusive then low \<le> v else low < v) \<or> (if highInclusive then v \<le> high else v < high))"

text \<open>Modelled from the spec: the same predicate on nullable identifiers.  The spec is silent
  on null arguments; here such a call answers \<open>False\<close>.\<close>

definition isInModuloRangeSpec ::
  "int option \<Rightarrow> int option \<Rightarrow> bool \<Rightarrow> int option \<Rightarrow> bool \<Rightarrow> bool" where
  "isInModuloRangeSpec v low lowInclusive high highInclusive =
     (case (v, low, high) of
        (Some v', Some l, Some h) \<Rightarrow> isInModuloRangeInt v' l lowInclusive h highInclusive
      | _ \<Rightarrow> False)"

section \<open>Helpers for JavaScript values\<close>

text \<open>Truthiness of a nullable number: \<open>null\<close> and \<open>0\<close> are falsy.\<close>

definition truthy :: "int option \<Rightarrow> bool" where
  "truthy x = (case x of None \<Rightarrow> False | Some v \<Rightarrow> v \<noteq> 0)"

text \<open>\<open>ToNumber\<close> of a nullable number in arithmetic: \<open>null\<close> counts as 0.\<close>

definition toNumber :: "int option \<Rightarrow> int" where
  "toNumber x = (case x of None \<Rightarrow> 0 | Some v \<Rightarrow> v)"

text \<open>The remainder operator \<open>%\<close>: the result has the sign of the dividend.\<close>

definition jsRem :: "int \<Rightarrow> int \<Rightarrow> int" where
  "jsRem a b = sgn a * (\<bar>a\<bar> mod \<bar>b\<bar>)"

text \<open>\<open>xs[i]\<close>: \<open>undefined\<close> out of range.\<close>

definition elemAt :: "node option list \<Rightarrow> nat \<Rightarrow> node option" where
  "elemAt xs i = (if i < length xs then xs ! i else None)"

text \<open>\<open>xs[0] = v\<close>: an empty array grows to length one.\<close>

definition setFirst :: "'a list \<Rightarrow> 'a \<Rightarrow> 'a list" where
  "setFirst xs v = (case xs of [] \<Rightarrow> [v] | _ # t \<Rightarrow> v # t)"

text \<open>\<open>xs.splice(k, 1, v)\<close> for \<open>k \<le> length xs\<close>: the element at index \<open>k\<close>, if there is one,
  is removed and \<open>v\<close> takes its place.\<close>

definition splice1 :: "nat \<Rightarrow> 'a \<Rightarrow> 'a list \<Rightarrow> 'a list" where
  "splice1 k v xs = take k xs @ [v] @ drop (Suc k) xs"

text \<open>\<open>this.fingerTable[i].successor = v\<close>: \<open>TypeError\<close> when there is no entry \<open>i\<close>.\<close>

definition setFingerSuccessor ::
  "chordNode \<Rightarrow> nat \<Rightarrow> node option \<Rightarrow> error + chordNode" where
  "setFingerSuccessor s i v =
     (if i < length (fingerTable s)
      then Inr (s\<lparr>fingerTable := (fingerTable s)[i := (fingerTable s ! i)\<lparr>successor := v\<rparr>]\<rparr>)
      else Inl TypeError)"

text \<open>\<open>this.fingerTable[i].successor\<close> and \<open>this.fingerTable[i].start\<close>.\<close>

definition fingerSuccessor :: "chordNode \<Rightarrow> nat \<Rightarrow> error + node option" where
  "fingerSuccessor s i =
     (if i < length (fingerTable s) then Inr (successor (fingerTable s ! i)) else Inl TypeError)"

definition fingerStart :: "chordNode \<Rightarrow> nat \<Rightarrow> error + int option" where
  "fingerStart s i =
     (if i < length (fingerTable s) then Inr (start (fingerTable s ! i)) else Inl TypeError)"

text \<open>\<open>x.id\<close> for a value that may be \<open>undefined\<close>.\<close>

definition idOf :: "node option \<Rightarrow> error + int option" where
  "idOf x = (case x of None \<Rightarrow> Inl TypeError | Some n \<Rightarrow> Inr (nodeId n))"

section \<open>The lookup engine\<close>

definition encapsulateSelf :: "chordNode \<Rightarrow> node" where
  "encapsulateSelf s =
     \<lparr>nodeId = selfId s, nodeHost = Some (selfHost s), nodePort = Some (selfPort s)\<rparr>"

text \<open>\<open>getSuccessor(nodeQueried)\<close>: the local value when the node asks itself, one RPC
  otherwise; a rejected RPC gives the null node.  With \<open>DEBUGGING_LOCAL\<close> the final log line
  reads \<open>nSuccessor.id\<close>.\<close>

definition getSuccessor ::
  "'w env \<Rightarrow> chordNode \<Rightarrow> node option \<Rightarrow> 'w \<Rightarrow> (error + node option) \<times> 'w" where
  "getSuccessor env s nodeQueried w =
     (case nodeQueried of
        None \<Rightarrow> (Inl TypeError, w)
      | Some nq \<Rightarrow>
          if selfId s = nodeId nq then
            (case fingerSuccessor s 0 of
               Inl e \<Rightarrow> (Inl e, w)
             | Inr nSuccessor \<Rightarrow>
                 if DEBUGGING_LOCAL env \<and> nSuccessor = None then (Inl TypeError, w)
                 else (Inr nSuccessor, w))
          else
            (case rpc env nq (GetSuccessorRemoteHelper nq) w of
               (Some nSuccessor, w') \<Rightarrow> (Inr (Some nSuccessor), w')
             | (None, w') \<Rightarrow> (Inr (Some NULL_NODE), w')))"

text \<open>The RPC handler \<open>getSuccessorRemoteHelper\<close>: its reply.\<close>

definition getSuccessorRemoteHelper :: "chordNode \<Rightarrow> error + node option" where
  "getSuccessorRemoteHelper s = fingerSuccessor s 0"

text \<open>The local scan of \<open>closestPrecedingFinger\<close>: \<open>scanFingers env s key nq k\<close> runs the loop
  \<open>for (i = k - 1; i >= 0; i--)\<close>.\<close>

fun scanFingers :: "'w env \<Rightarrow> chordNode \<Rightarrow> int option \<Rightarrow> node \<Rightarrow> nat \<Rightarrow> error + node" where
  "scanFingers env s key nodeQueried 0 = Inr nodeQueried"
| "scanFingers env s key nodeQueried (Suc i) =
     (case fingerSuccessor s i of
        Inl e \<Rightarrow> Inl e
      | Inr None \<Rightarrow> Inl TypeError
      | Inr (Some f) \<Rightarrow>
          if isInModuloRange env (nodeId f) (nodeId nodeQueried) False key False then Inr f
          else scanFingers env s key nodeQueried i)"

definition closestPrecedingFinger ::
  "'w env \<Rightarrow> chordNode \<Rightarrow> int option \<Rightarrow> node \<Rightarrow> 'w \<Rightarrow> (error + node) \<times> 'w" where
  "closestPrecedingFinger env s key nodeQueried w =
     (if selfId s = nodeId nodeQueried then
        (scanFingers env s key nodeQueried (HASH_BIT_LENGTH env), w)
      else
        (case rpc env nodeQueried (ClosestPrecedingFingerRemoteHelper key nodeQueried) w of
           (Some nPreceding, w') \<Rightarrow> (Inr nPreceding, w')
         | (None, w') \<Rightarrow> (Inr NULL_NODE, w')))"

text \<open>The \<open>while\<close> loop of \<open>findPredecessor\<close>.  The condition reads \<open>nPrimeSuccessor.id\<close>
  first; both calls of the body sit in \<open>try\<close> blocks whose handlers substitute the null
  node.  The loop hands back \<open>nPrime\<close> and the final value of \<open>iterationCounter\<close>.  The
  log line before the loop reads \<open>nPrimeSuccessor.id\<close> as the condition does, so
  \<open>DEBUGGING_LOCAL\<close> makes no difference here.\<close>

function findPredecessorLoop ::
  "'w env \<Rightarrow> chordNode \<Rightarrow> int option \<Rightarrow> node \<Rightarrow> node option \<Rightarrow> int \<Rightarrow> 'w
     \<Rightarrow> (error + node \<times> int) \<times> 'w" where
  "findPredecessorLoop env s key nPrime nPrimeSuccessor iterationCounter w =
     (case nPrimeSuccessor of
        None \<Rightarrow> (Inl TypeError, w)
      | Some ns \<Rightarrow>
          if \<not> isInModuloRange env key (nodeId nPrime) False (nodeId ns) True
             \<and> nodeId nPrime \<noteq> nodeId ns \<and> iterationCounter \<ge> 0
          then
            (case closestPrecedingFinger env s key nPrime w of
               (r1, w1) \<Rightarrow>
                 (case getSuccessor env s
                         (Some (case r1 of Inl _ \<Rightarrow> NULL_NODE | Inr n \<Rightarrow> n)) w1 of
                    (r2, w2) \<Rightarrow>
                      findPredecessorLoop env s key
                        (case r1 of Inl _ \<Rightarrow> NULL_NODE | Inr n \<Rightarrow> n)
                        (case r2 of Inl _ \<Rightarrow> Some NULL_NODE | Inr n \<Rightarrow> n)
                        (iterationCounter - 1) w2))
          else (Inr (nPrime, iterationCounter), w))"
  by pat_completeness auto
termination
  by (relation "measure (\<lambda>(env, s, key, nPrime, nPrimeSuccessor, iterationCounter, w).
                   nat (iterationCounter + 1))") auto

declare findPredecessorLoop.simps [simp del]

definition findPredecessor ::
  "'w env \<Rightarrow> chordNode \<Rightarrow> int option \<Rightarrow> 'w \<Rightarrow> (error + node) \<times> 'w" where
  "findPredecessor env s key w =
     (case getSuccessor env s (Some (encapsulateSelf s)) w of
        (r0, w0) \<Rightarrow>
          (case findPredecessorLoop env s key (encapsulateSelf s)
                  (case r0 of Inl _ \<Rightarrow> Some NULL_NODE | Inr n \<Rightarrow> n)
                  (2 ^ HASH_BIT_LENGTH env * int (HASH_BIT_LENGTH env)) w0 of
             (Inl e, w') \<Rightarrow> (Inl e, w')
           | (Inr (nPrime, _), w') \<Rightarrow> (Inr nPrime, w')))"

text \<open>\<open>findSuccessor(id, nodeQueried)\<close>.  With \<open>DEBUGGING_LOCAL\<close> the log lines after the
  \<open>try\<close> blocks read \<open>nPrimeSuccessor.id\<close>.\<close>

definition findSuccessor ::
  "'w env \<Rightarrow> chordNode \<Rightarrow> int option \<Rightarrow> node \<Rightarrow> 'w \<Rightarrow> (error + node option) \<times> 'w" where
  "findSuccessor env s key nodeQueried w =
     (if selfId s \<noteq> None \<and> selfId s = nodeId nodeQueried then
        (case findPredecessor env s key w of
           (r1, w1) \<Rightarrow>
             (case getSuccessor env s
                     (Some (case r1 of Inl _ \<Rightarrow> NULL_NODE | Inr n \<Rightarrow> n)) w1 of
                (r2, w2) \<Rightarrow>
                  (case (case r2 of Inl _ \<Rightarrow> Some NULL_NODE | Inr n \<Rightarrow> n) of
                     None \<Rightarrow> if DEBUGGING_LOCAL env then (Inl TypeError, w2) else (Inr None, w2)
                   | Some nPrimeSuccessor \<Rightarrow> (Inr (Some nPrimeSuccessor), w2))))
      else
        (case rpc env nodeQueried (FindSuccessorRemoteHelper key nodeQueried) w of
           (Some nPrimeSuccessor, w') \<Rightarrow> (Inr (Some nPrimeSuccessor), w')
         | (None, w') \<Rightarrow> (Inr (Some NULL_NODE), w')))"

text \<open>The RPC handler \<open>findSuccessorRemoteHelper\<close>: the reply passed to the callback.\<close>

definition findSuccessorRemoteHelper ::
  "'w env \<Rightarrow> chordNode \<Rightarrow> int option \<Rightarrow> node \<Rightarrow> 'w \<Rightarrow> node option \<times> 'w" where
  "findSuccessorRemoteHelper env s key nodeQueried w =
     (case findSuccessor env s key nodeQueried w of
        (Inl _, w') \<Rightarrow> (Some NULL_NODE, w')
      | (Inr nPrimeSuccessor, w') \<Rightarrow> (nPrimeSuccessor, w'))"

section \<open>RPC handlers on the predecessor\<close>

definition setPredecessor :: "chordNode \<Rightarrow> node \<Rightarrow> chordNode" where
  "setPredecessor s message = s\<lparr>predecessor := message\<rparr>"

definition notify :: "'w env \<Rightarrow> chordNode \<Rightarrow> node \<Rightarrow> chordNode" where
  "notify env s nPrime =
     (if nodeId (predecessor s) = None
         \<or> isInModuloRange env (nodeId nPrime) (nodeId (predecessor s)) False (selfId s) False
      then s\<lparr>predecessor := nPrime\<rparr>
      else s)"

section \<open>The successor list\<close>

text \<open>\<open>checkSuccessor()\<close>: the first test reads \<open>this.fingerTable[0].successor.id\<close>; the call
  of \<open>getSuccessor\<close> and the reading of its result's \<open>id\<close> sit in one \<open>try\<close> block.\<close>

definition checkSuccessor :: "'w env \<Rightarrow> chordNode \<Rightarrow> 'w \<Rightarrow> (error + bool) \<times> 'w" where
  "checkSuccessor env s w =
     (case fingerSuccessor s 0 of
        Inl e \<Rightarrow> (Inl e, w)
      | Inr None \<Rightarrow> (Inl TypeError, w)
      | Inr (Some sc) \<Rightarrow>
          if nodeId sc = None then (Inr False, w)
          else if nodeId sc = selfId s then (Inr True, w)
          else
            (case getSuccessor env s (Some sc) w of
               (Inr (Some nSuccessor), w') \<Rightarrow> (Inr (nodeId nSuccessor \<noteq> None), w')
             | (_, w') \<Rightarrow> (Inr False, w')))"

text \<open>The loop that prunes dead heads: \<open>while (!successorSeemsOK && successorTable.length > 0)\<close>.
  After \<open>shift()\<close> the new head, \<open>undefined\<close> for an empty list, becomes
  \<open>fingerTable[0].successor\<close>.\<close>

function pruneHeadLoop ::
  "'w env \<Rightarrow> bool \<Rightarrow> chordNode \<Rightarrow> 'w \<Rightarrow> (error + bool) \<times> chordNode \<times> 'w" where
  "pruneHeadLoop env successorSeemsOK s w =
     (if \<not> successorSeemsOK \<and> length (successorTable s) > 0 then
        (case checkSuccessor env s w of
           (Inr True, w1) \<Rightarrow>
             (case fingerSuccessor s 0 of
                Inl e \<Rightarrow> (Inl e, s, w1)
              | Inr f \<Rightarrow>
                  pruneHeadLoop env True (s\<lparr>successorTable := setFirst (successorTable s) f\<rparr>) w1)
         | (_, w1) \<Rightarrow>
             (case setFingerSuccessor (s\<lparr>successorTable := tl (successorTable s)\<rparr>) 0
                     (elemAt (tl (successorTable s)) 0) of
                Inl e \<Rightarrow> (Inl e, s\<lparr>successorTable := tl (successorTable s)\<rparr>, w1)
              | Inr s' \<Rightarrow> pruneHeadLoop env False s' w1))
      else (Inr successorSeemsOK, s, w))"
  by pat_completeness auto
termination
  by (relation "measure (\<lambda>(env, successorSeemsOK, s, w).
                   if successorSeemsOK then 0 else Suc (length (successorTable s)))")
     (auto simp: setFingerSuccessor_def split: if_splits)

declare pruneHeadLoop.simps [simp del]

text \<open>One slot of the loop that bulks the table up, after \<open>getSuccessor\<close> has answered
  \<open>successorSuccessor\<close>: the test
  \<open>successorSuccessor && successorSuccessor.id !== null && !isInModuloRange(...)\<close> and the
  \<open>splice(i + 1, 1, successorSuccessor)\<close>.\<close>

definition bulkUpSlot ::
  "'w env \<Rightarrow> chordNode \<Rightarrow> nat \<Rightarrow> node option \<Rightarrow> error + chordNode" where
  "bulkUpSlot env s i successorSuccessor =
     (case successorSuccessor of
        None \<Rightarrow> Inr s
      | Some ss \<Rightarrow>
          if nodeId ss = None then Inr s
          else
            (case elemAt (successorTable s) i of
               None \<Rightarrow> Inl TypeError
             | Some t \<Rightarrow>
                 if \<not> isInModuloRange env (nodeId ss) (selfId s) True (nodeId t) True
                 then Inr (s\<lparr>successorTable := splice1 (i + 1) (Some ss) (successorTable s)\<rparr>)
                 else Inr s))"

text \<open>The loop \<open>for (i = 0; i < successorTable.length && i <= HASH_BIT_LENGTH; i++)\<close>.  With
  \<open>DEBUGGING_LOCAL\<close> the log line reads \<open>successorTable[i].id\<close> and
  \<open>successorSuccessor.id\<close>.\<close>

function bulkUpLoop ::
  "'w env \<Rightarrow> nat \<Rightarrow> chordNode \<Rightarrow> 'w \<Rightarrow> (error + unit) \<times> chordNode \<times> 'w" where
  "bulkUpLoop env i s w =
     (if i < length (successorTable s) \<and> i \<le> HASH_BIT_LENGTH env then
        (case getSuccessor env s (elemAt (successorTable s) i) w of
           (r, w1) \<Rightarrow>
             if DEBUGGING_LOCAL env
                \<and> (elemAt (successorTable s) i = None
                    \<or> (case r of Inl _ \<Rightarrow> Some NULL_NODE | Inr n \<Rightarrow> n) = None)
             then (Inl TypeError, s, w1)
             else
               (case bulkUpSlot env s i (case r of Inl _ \<Rightarrow> Some NULL_NODE | Inr n \<Rightarrow> n) of
                  Inl e \<Rightarrow> (Inl e, s, w1)
                | Inr s' \<Rightarrow> bulkUpLoop env (Suc i) s' w1))
      else (Inr (), s, w))"
  by pat_completeness auto
termination
  by (relation "measure (\<lambda>(env, i, s, w). Suc (HASH_BIT_LENGTH env) - i)") auto

declare bulkUpLoop.simps [simp del]

text \<open>The loop that prunes from the bottom:
  \<open>while ((!successorSeemsOK || successorTable.length > HASH_BIT_LENGTH) && i > 0)\<close>.  The
  \<open>try\<close> block covers the call and the reading of \<open>successorSuccessor.id\<close>; its handler sets
  \<open>successorSeemsOK = false\<close>.\<close>

function pruneTailLoop ::
  "'w env \<Rightarrow> nat \<Rightarrow> bool \<Rightarrow> chordNode \<Rightarrow> 'w \<Rightarrow> bool \<times> chordNode \<times> 'w" where
  "pruneTailLoop env i successorSeemsOK s w =
     (if (\<not> successorSeemsOK \<or> length (successorTable s) > HASH_BIT_LENGTH env) \<and> i > 0 then
        (case getSuccessor env s (elemAt (successorTable s) i) w of
           (r, w1) \<Rightarrow>
             pruneTailLoop env (i - 1)
               (case r of
                  Inr (Some ss) \<Rightarrow> (if nodeId ss \<noteq> None then True else successorSeemsOK)
                | _ \<Rightarrow> False)
               (if \<not> (case r of
                         Inr (Some ss) \<Rightarrow> (if nodeId ss \<noteq> None then True else successorSeemsOK)
                       | _ \<Rightarrow> False)
                   \<or> i \<ge> HASH_BIT_LENGTH env
                then s\<lparr>successorTable := butlast (successorTable s)\<rparr>
                else s)
               w1)
      else (successorSeemsOK, s, w))"
  by pat_completeness auto
termination
  by (relation "measure (\<lambda>(env, i, successorSeemsOK, s, w). i)") auto

declare pruneTailLoop.simps [simp del]

text \<open>The first phase of \<open>updateSuccessorTable\<close>: mirror a live successor into slot 0, or
  prune dead heads.\<close>

definition syncOrPrune ::
  "'w env \<Rightarrow> chordNode \<Rightarrow> 'w \<Rightarrow> (error + bool) \<times> chordNode \<times> 'w" where
  "syncOrPrune env s w =
     (case checkSuccessor env s w of
        (Inr True, w0) \<Rightarrow>
          (case fingerSuccessor s 0 of
             Inl e \<Rightarrow> (Inl e, s, w0)
           | Inr f \<Rightarrow> (Inr True, s\<lparr>successorTable := setFirst (successorTable s) f\<rparr>, w0))
      | (_, w0) \<Rightarrow> pruneHeadLoop env False s w0)"

text \<open>The second phase: an empty list gets the node itself.\<close>

definition reinsertSelf :: "chordNode \<Rightarrow> chordNode" where
  "reinsertSelf s =
     (if length (successorTable s) < 1
      then s\<lparr>successorTable := successorTable s @ [Some (encapsulateSelf s)]\<rparr>
      else s)"

text \<open>The third phase: the guard
  \<open>successorTable.length < HASH_BIT_LENGTH && this.id !== this.fingerTable[0].successor.id\<close>
  and the loop behind it.\<close>

definition bulkUp :: "'w env \<Rightarrow> chordNode \<Rightarrow> 'w \<Rightarrow> (error + unit) \<times> chordNode \<times> 'w" where
  "bulkUp env s w =
     (if length (successorTable s) < HASH_BIT_LENGTH env then
        (case fingerSuccessor s 0 of
           Inl e \<Rightarrow> (Inl e, s, w)
         | Inr None \<Rightarrow> (Inl TypeError, s, w)
         | Inr (Some f) \<Rightarrow>
             if selfId s \<noteq> nodeId f then bulkUpLoop env 0 s w else (Inr (), s, w))
      else (Inr (), s, w))"

text \<open>\<open>updateSuccessorTable()\<close>.  With \<open>DEBUGGING_LOCAL\<close> the opening log line reads
  \<open>this.fingerTable[0].successor.id\<close>.\<close>

definition updateSuccessorTable ::
  "'w env \<Rightarrow> chordNode \<Rightarrow> 'w \<Rightarrow> (error + bool) \<times> chordNode \<times> 'w" where
  "updateSuccessorTable env s w =
     (if DEBUGGING_LOCAL env
         \<and> (case fingerSuccessor s 0 of Inr (Some _) \<Rightarrow> False | _ \<Rightarrow> True)
      then (Inl TypeError, s, w)
      else
        (case syncOrPrune env s w of
           (Inl e, s1, w1) \<Rightarrow> (Inl e, s1, w1)
         | (Inr _, s1, w1) \<Rightarrow>
             (case bulkUp env (reinsertSelf s1) w1 of
                (Inl e, s3, w3) \<Rightarrow> (Inl e, s3, w3)
              | (Inr _, s3, w3) \<Rightarrow>
                  (case pruneTailLoop env (length (successorTable s3) - 1) False s3 w3 of
                     (ok, s4, w4) \<Rightarrow> (Inr ok, s4, w4)))))"

section \<open>The join protocol\<close>

text \<open>The loop of \<open>initFingerTable\<close>: \<open>for (i = 0; i < HASH_BIT_LENGTH - 1; i++)\<close>.\<close>

function initFingerLoop ::
  "'w env \<Rightarrow> node \<Rightarrow> nat \<Rightarrow> chordNode \<Rightarrow> 'w \<Rightarrow> (error + unit) \<times> chordNode \<times> 'w" where
  "initFingerLoop env nPrime i s w =
     (if int i < int (HASH_BIT_LENGTH env) - 1 then
        (case fingerStart s (i + 1) of
           Inl e \<Rightarrow> (Inl e, s, w)
         | Inr st \<Rightarrow>
             (case fingerSuccessor s i of
                Inl e \<Rightarrow> (Inl e, s, w)
              | Inr None \<Rightarrow> (Inl TypeError, s, w)
              | Inr (Some f) \<Rightarrow>
                  if isInModuloRange env st (selfId s) True (nodeId f) False then
                    (case setFingerSuccessor s (i + 1) (Some f) of
                       Inl e \<Rightarrow> (Inl e, s, w)
                     | Inr s' \<Rightarrow> initFingerLoop env nPrime (Suc i) s' w)
                  else
                    (case findSuccessor env s st nPrime w of
                       (r, w') \<Rightarrow>
                         (case setFingerSuccessor s (i + 1)
                                 (case r of Inl _ \<Rightarrow> Some NULL_NODE | Inr n \<Rightarrow> n) of
                            Inl e \<Rightarrow> (Inl e, s, w')
                          | Inr s' \<Rightarrow> initFingerLoop env nPrime (Suc i) s' w'))))
      else (Inr (), s, w))"
  by pat_completeness auto
termination
  by (relation "measure (\<lambda>(env, nPrime, i, s, w). HASH_BIT_LENGTH env - i)") auto

declare initFingerLoop.simps [simp del]

text \<open>\<open>initFingerTable(nPrime)\<close>.  The lookup of \<open>fingerTable[0].start\<close> sits in a \<open>try\<close>
  block, the assignment to \<open>fingerTable[0].successor\<close> and \<open>connect\<close> do not.  Modelled from
  the spec: \<open>connect\<close> resolves the address of a peer to a client stub; given \<open>undefined\<close> it
  has no address to read, which counts as a \<open>TypeError\<close> here.  With \<open>DEBUGGING_LOCAL\<close> the
  opening log line reads \<open>fingerTable[0].successor.id\<close>.\<close>

definition initFingerTable ::
  "'w env \<Rightarrow> node \<Rightarrow> chordNode \<Rightarrow> 'w \<Rightarrow> (error + unit) \<times> chordNode \<times> 'w" where
  "initFingerTable env nPrime s w =
     (if DEBUGGING_LOCAL env
         \<and> (case fingerSuccessor s 0 of Inr (Some _) \<Rightarrow> False | _ \<Rightarrow> True)
      then (Inl TypeError, s, w)
      else
        (case (case fingerStart s 0 of
                 Inl e \<Rightarrow> (Inl e, w)
               | Inr st \<Rightarrow> findSuccessor env s st nPrime w) of
           (r, w1) \<Rightarrow>
             (case setFingerSuccessor s 0 (case r of Inl _ \<Rightarrow> Some NULL_NODE | Inr n \<Rightarrow> n) of
                Inl e \<Rightarrow> (Inl e, s, w1)
              | Inr s1 \<Rightarrow>
                  (case (case r of Inl _ \<Rightarrow> Some NULL_NODE | Inr n \<Rightarrow> n) of
                     None \<Rightarrow> (Inl TypeError, s1, w1)
                   | Some sc \<Rightarrow>
                       (case rpc env sc (GetPredecessor (Some sc)) w1 of
                          (p, w2) \<Rightarrow>
                            (case rpc env sc
                                    (SetPredecessor (encapsulateSelf s1)) w2 of
                               (_, w3) \<Rightarrow>
                                 initFingerLoop env nPrime 0
                                   (s1\<lparr>predecessor :=
                                         (case p of None \<Rightarrow> NULL_NODE | Some n \<Rightarrow> n)\<rparr>)
                                   w3))))))"

text \<open>The loop of \<open>updateOthers\<close>: \<open>for (i = 0; i < HASH_BIT_LENGTH; i++)\<close>.  It changes
  nothing in the node; what is left is the state of the network.\<close>

function updateOthersLoop :: "'w env \<Rightarrow> nat \<Rightarrow> chordNode \<Rightarrow> 'w \<Rightarrow> 'w" where
  "updateOthersLoop env i s w =
     (if i < HASH_BIT_LENGTH env then
        (case findPredecessor env s
                (Some (jsRem (toNumber (selfId s) - 2 ^ i + 2 ^ HASH_BIT_LENGTH env)
                             (2 ^ HASH_BIT_LENGTH env))) w of
           (r, w1) \<Rightarrow>
             if selfId s \<noteq> nodeId (case r of Inl _ \<Rightarrow> NULL_NODE | Inr n \<Rightarrow> n) then
               (case rpc env (case r of Inl _ \<Rightarrow> NULL_NODE | Inr n \<Rightarrow> n)
                       (UpdateFingerTable (encapsulateSelf s) i) w1 of
                  (_, w2) \<Rightarrow> updateOthersLoop env (Suc i) s w2)
             else updateOthersLoop env (Suc i) s w1)
      else w)"
  by pat_completeness auto
termination
  by (relation "measure (\<lambda>(env, i, s, w). HASH_BIT_LENGTH env - i)") auto

declare updateOthersLoop.simps [simp del]

definition updateOthers :: "'w env \<Rightarrow> chordNode \<Rightarrow> 'w \<Rightarrow> 'w" where
  "updateOthers env s w = updateOthersLoop env 0 s w"

text \<open>\<open>migrateKeysAfterJoin()\<close> always throws.\<close>

definition migrateKeysAfterJoin :: "error + unit" where
  "migrateKeysAfterJoin = Inl NotImplemented"

text \<open>The finger table \<open>joinCluster\<close> builds: the template entry is popped and
  \<open>HASH_BIT_LENGTH\<close> entries pointing at the node itself are pushed.\<close>

definition initialFingers :: "'w env \<Rightarrow> chordNode \<Rightarrow> fingerTableEntry list" where
  "initialFingers env s =
     butlast (fingerTable s)
     @ map (\<lambda>i. \<lparr>start = Some (jsRem (toNumber (selfId s) + 2 ^ i) (2 ^ HASH_BIT_LENGTH env)),
                  successor = Some (encapsulateSelf s)\<rparr>)
           [0..<HASH_BIT_LENGTH env]"

text \<open>The first lines of \<open>joinCluster\<close>: \<open>if (!this.id) this.id = hash(host, port)\<close>, the same
  for \<open>knownId\<close>.\<close>

definition computeIds :: "'w env \<Rightarrow> chordNode \<Rightarrow> chordNode" where
  "computeIds env s =
     s\<lparr>selfId := (if \<not> truthy (selfId s)
                   then Some (computeHostPortHash env (selfHost s) (selfPort s))
                   else selfId s),
       knownId := (if \<not> truthy (knownId s)
                    then Some (computeHostPortHash env (knownHost s) (knownPort s))
                    else knownId s)\<rparr>"

text \<open>The test \<open>this.knownId && !(this.id == this.knownId)\<close> that chooses between joining
  through the known peer and starting a ring.\<close>

definition joinsKnownPeer :: "chordNode \<Rightarrow> bool" where
  "joinsKnownPeer s = (truthy (knownId s) \<and> \<not> (selfId s = knownId s))"

definition knownNode :: "chordNode \<Rightarrow> node" where
  "knownNode s =
     \<lparr>nodeId = knownId s, nodeHost = Some (knownHost s), nodePort = Some (knownPort s)\<rparr>"

text \<open>\<open>joinCluster()\<close>, up to the scheduling of the periodic tasks.  \<open>process.exit\<close> ends the
  run with \<open>ProcessExit\<close>; the error of \<open>migrateKeysAfterJoin\<close> is caught and logged.\<close>

definition joinCluster ::
  "'w env \<Rightarrow> chordNode \<Rightarrow> 'w \<Rightarrow> (error + unit) \<times> chordNode \<times> 'w" where
  "joinCluster env s0 w =
     (let s1 = computeIds env s0 in
      if (selfHost s1 \<noteq> knownHost s1 \<or> selfPort s1 \<noteq> knownPort s1) \<and> selfId s1 = knownId s1
      then (Inl ProcessExit, s1, w)
      else
        (let s2 = s1\<lparr>fingerTable := initialFingers env s1\<rparr> in
         case (if joinsKnownPeer s2 then
                 (case initFingerTable env (knownNode s2) s2 w of
                    (Inl e, s3, w3) \<Rightarrow> (Inl e, s3, w3)
                  | (Inr _, s3, w3) \<Rightarrow> (Inr (), s3, updateOthers env s3 w3))
               else (Inr (), s2\<lparr>predecessor := encapsulateSelf s2\<rparr>, w)) of
           (Inl e, s4, w4) \<Rightarrow> (Inl e, s4, w4)
         | (Inr _, s4, w4) \<Rightarrow>
             (case migrateKeysAfterJoin of
                _ \<Rightarrow>
                  (case fingerSuccessor s4 0 of
                     Inl e \<Rightarrow> (Inl e, s4, w4)
                   | Inr f \<Rightarrow>
                       (Inr (), s4\<lparr>successorTable := setFirst (successorTable s4) f\<rparr>, w4)))))"

section \<open>Fixing fingers\<close>

text \<open>\<open>fixFingers()\<close>, with the value \<open>random\<close> of \<open>Math.random()\<close>, a number in \<open>[0, 1)\<close>, as
  an argument.  The lookup and the overwrite sit in one \<open>try\<close> block whose handler only
  logs; with \<open>DEBUGGING_LOCAL\<close> the closing log line reads \<open>fingerTable[randomId].start\<close>.\<close>

definition randomIndex :: "'w env \<Rightarrow> real \<Rightarrow> nat" where
  "randomIndex env random = nat \<lceil>random * (real (HASH_BIT_LENGTH env) - 1)\<rceil>"

definition fixFingers ::
  "'w env \<Rightarrow> real \<Rightarrow> chordNode \<Rightarrow> 'w \<Rightarrow> (error + unit) \<times> chordNode \<times> 'w" where
  "fixFingers env random s w =
     (case (case fingerStart s (randomIndex env random) of
              Inl _ \<Rightarrow> (s, w)
            | Inr st \<Rightarrow>
                (case findSuccessor env s st (encapsulateSelf s) w of
                   (Inr (Some nSuccessor), w1) \<Rightarrow>
                     if nodeId nSuccessor \<noteq> None then
                       (case setFingerSuccessor s (randomIndex env random) (Some nSuccessor) of
                          Inl _ \<Rightarrow> (s, w1)
                        | Inr s' \<Rightarrow> (s', w1))
                     else (s, w1)
                 | (_, w1) \<Rightarrow> (s, w1))) of
        (s1, w1) \<Rightarrow>
          if DEBUGGING_LOCAL env \<and> \<not> randomIndex env random < length (fingerTable s1)
          then (Inl TypeError, s1, w1)
          else (Inr (), s1, w1))"

section \<open>The spec's wording of two operations\<close>

text \<open>The spec on the local case of \<open>closestPrecedingFinger\<close>: scan fingers
  \<open>i = m - 1\<close> down to 0 and return the first finger whose successor's id lies in
  \<open>(nodeQueried.id, id)\<close>, both exclusive; if none, return \<open>nodeQueried\<close> itself.\<close>

definition definedFingers :: "nat \<Rightarrow> chordNode \<Rightarrow> node list" where
  "definedFingers k s = List.map_filter successor (take k (fingerTable s))"

definition closestPrecedingFingerSpec ::
  "'w env \<Rightarrow> chordNode \<Rightarrow> int option \<Rightarrow> node \<Rightarrow> node" where
  "closestPrecedingFingerSpec env s key nodeQueried =
     (case find (\<lambda>f. isInModuloRange env (nodeId f) (nodeId nodeQueried) False key False)
             (rev (definedFingers (HASH_BIT_LENGTH env) s)) of
        Some f \<Rightarrow> f
      | None \<Rightarrow> nodeQueried)"

text \<open>The spec on a slot of the extension of the successor list: the returned node is
  inserted at position \<open>i + 1\<close>, so that the list grows by one entry.\<close>

definition insertAt :: "nat \<Rightarrow> 'a \<Rightarrow> 'a list \<Rightarrow> 'a list" where
  "insertAt k v xs = take k xs @ [v] @ drop k xs"

definition bulkUpSlotSpec ::
  "'w env \<Rightarrow> chordNode \<Rightarrow> nat \<Rightarrow> node option \<Rightarrow> error + chordNode" where
  "bulkUpSlotSpec env s i successorSuccessor =
     (case successorSuccessor of
        None \<Rightarrow> Inr s
      | Some ss \<Rightarrow>
          if nodeId ss = None then Inr s
          else
            (case elemAt (successorTable s) i of
               None \<Rightarrow> Inl TypeError
             | Some t \<Rightarrow>
                 if \<not> isInModuloRange env (nodeId ss) (selfId s) True (nodeId t) True
                 then Inr (s\<lparr>successorTable := insertAt (i + 1) (Some ss) (successorTable s)\<rparr>)
                 else Inr s))"

section \<open>Concrete configurations\<close>

text \<open>A network that answers from a fixed table and keeps a log of the requests it has
  received, in order.\<close>

type_synonym netlog = "(node \<times> request) list"

definition logRpc ::
  "(node \<Rightarrow> request \<Rightarrow> node option) \<Rightarrow> node \<Rightarrow> request \<Rightarrow> netlog \<Rightarrow> node option \<times> netlog" where
  "logRpc answer p req w = (answer p req, w @ [(p, req)])"

text \<open>The requests of a log that ask for a successor, and those that ask for a closest
  preceding finger.\<close>

definition successorRequests :: "netlog \<Rightarrow> netlog" where
  "successorRequests w =
     filter (\<lambda>(p, req). case req of GetSuccessorRemoteHelper _ \<Rightarrow> True | _ \<Rightarrow> False) w"

definition fingerRequests :: "netlog \<Rightarrow> netlog" where
  "fingerRequests w =
     filter (\<lambda>(p, req). case req of ClosestPrecedingFingerRemoteHelper _ _ \<Rightarrow> True
                          | _ \<Rightarrow> False) w"

definition peer :: "int \<Rightarrow> node" where
  "peer i = \<lparr>nodeId = Some i, nodeHost = Some ''localhost'', nodePort = Some (8440 + i)\<rparr>"

text \<open>The test parameterisation of the spec: \<open>m = 3\<close>, identifiers in \<open>[0, 8)\<close>; a node at
  port \<open>p\<close> hashes to \<open>p mod 8\<close>.\<close>

definition testEnv :: "(node \<Rightarrow> request \<Rightarrow> node option) \<Rightarrow> netlog env" where
  "testEnv answer =
     \<lparr>HASH_BIT_LENGTH = 3, DEBUGGING_LOCAL = False, isInModuloRange = isInModuloRangeSpec,
      computeHostPortHash = (\<lambda>h p. p mod 8), rpc = logRpc answer\<rparr>"

text \<open>No peer answers.\<close>

definition silent :: "node \<Rightarrow> request \<Rightarrow> node option" where
  "silent p req = None"

text \<open>The ring \<open>{1, 3, 5}\<close> as its members 3 and 5 answer for themselves.\<close>

definition ringAnswer :: "node \<Rightarrow> request \<Rightarrow> node option" where
  "ringAnswer p req =
     (case req of
        GetSuccessorRemoteHelper _ \<Rightarrow>
          (if nodeId p = Some 3 then Some (peer 5)
           else if nodeId p = Some 5 then Some (peer 1) else None)
      | GetPredecessor _ \<Rightarrow>
          (if nodeId p = Some 3 then Some (peer 1)
           else if nodeId p = Some 5 then Some (peer 3) else None)
      | _ \<Rightarrow> None)"

text \<open>Node 3 has learnt of a new successor 4; node 4 does not answer yet.\<close>

definition joiningAnswer :: "node \<Rightarrow> request \<Rightarrow> node option" where
  "joiningAnswer p req =
     (case req of
        GetSuccessorRemoteHelper _ \<Rightarrow> (if nodeId p = Some 3 then Some (peer 4) else None)
      | _ \<Rightarrow> None)"

text \<open>A peer whose fingers give no progress: it names itself as the closest preceding
  finger and node 7 as its successor.\<close>

definition stuckAnswer :: "node \<Rightarrow> request \<Rightarrow> node option" where
  "stuckAnswer p req =
     (case req of
        ClosestPrecedingFingerRemoteHelper _ nq \<Rightarrow> Some nq
      | GetSuccessorRemoteHelper _ \<Rightarrow> Some (peer 7)
      | _ \<Rightarrow> None)"

text \<open>The ring of the single node 0, which answers every query with itself.\<close>

definition zeroAnswer :: "node \<Rightarrow> request \<Rightarrow> node option" where
  "zeroAnswer p req = (if nodeId p = Some 0 then Some (peer 0) else None)"

text \<open>Node 1 of the ring \<open>{1, 3, 5}\<close>: starts \<open>{2, 3, 5}\<close>, successors \<open>{3, 3, 5}\<close>.\<close>

definition node1 :: chordNode where
  "node1 =
     \<lparr>selfId = Some 1, selfHost = ''localhost'', selfPort = 8441,
      knownId = Some 1, knownHost = ''localhost'', knownPort = 8441,
      fingerTable = [\<lparr>start = Some 2, successor = Some (peer 3)\<rparr>,
                     \<lparr>start = Some 3, successor = Some (peer 3)\<rparr>,
                     \<lparr>start = Some 5, successor = Some (peer 5)\<rparr>],
      successorTable = [Some (peer 3)],
      predecessor = peer 5\<rparr>"

text \<open>Node 1 with two entries in its successor list.\<close>

definition node1two :: chordNode where
  "node1two = node1\<lparr>successorTable := [Some (peer 3), Some (peer 5)]\<rparr>"

text \<open>Node 1 once its successor list is exhausted: \<open>fingerTable[0].successor\<close> is
  \<open>undefined\<close>.\<close>

definition orphan1 :: chordNode where
  "orphan1 =
     node1\<lparr>fingerTable := [\<lparr>start = Some 2, successor = None\<rparr>,
                            \<lparr>start = Some 3, successor = Some (peer 3)\<rparr>,
                            \<lparr>start = Some 5, successor = Some (peer 5)\<rparr>]\<rparr>"

text \<open>A node as its constructor leaves it: own id 3 given, a known peer at port 8440 given
  without an id.\<close>

definition fresh3 :: chordNode where
  "fresh3 =
     \<lparr>selfId = Some 3, selfHost = ''localhost'', selfPort = 8443,
      knownId = None, knownHost = ''localhost'', knownPort = 8440,
      fingerTable = [\<lparr>start = None, successor = Some NULL_NODE\<rparr>],
      successorTable = [Some NULL_NODE],
      predecessor = NULL_NODE\<rparr>"

section \<open>General facts\<close>

subsection \<open>Lookups\<close>

lemma getSuccessor_debug_defined:
  "DEBUGGING_LOCAL env \<Longrightarrow> fst (getSuccessor env s nodeQueried w) \<noteq> Inr None"
  by (auto simp: getSuccessor_def split: option.splits sum.splits prod.splits)

lemma getSuccessor_remote:
  "selfId s \<noteq> nodeId nq \<Longrightarrow>
   getSuccessor env s (Some nq) w =
     (Inr (Some (case fst (rpc env nq (GetSuccessorRemoteHelper nq) w) of
                   None \<Rightarrow> NULL_NODE | Some n \<Rightarrow> n)),
      snd (rpc env nq (GetSuccessorRemoteHelper nq) w))"
  by (auto simp: getSuccessor_def split: option.splits prod.splits)

lemma findSuccessor_local:
  assumes "selfId s \<noteq> None \<and> selfId s = nodeId nodeQueried"
  shows "fst (findSuccessor env s key nodeQueried w) =
           Inr (case fst (getSuccessor env s
                            (Some (case fst (findPredecessor env s key w) of
                                     Inl _ \<Rightarrow> NULL_NODE | Inr n \<Rightarrow> n))
                            (snd (findPredecessor env s key w))) of
                  Inl _ \<Rightarrow> Some NULL_NODE
                | Inr r \<Rightarrow> r)"
proof -
  obtain r1 w1 where p: "findPredecessor env s key w = (r1, w1)"
    by (cases "findPredecessor env s key w")
  obtain r2 w2 where g:
    "getSuccessor env s (Some (case r1 of Inl _ \<Rightarrow> NULL_NODE | Inr n \<Rightarrow> n)) w1 = (r2, w2)"
    by (cases "getSuccessor env s (Some (case r1 of Inl _ \<Rightarrow> NULL_NODE | Inr n \<Rightarrow> n)) w1")
  have "DEBUGGING_LOCAL env \<Longrightarrow> r2 \<noteq> Inr None"
    using getSuccessor_debug_defined
            [of env s "Some (case r1 of Inl _ \<Rightarrow> NULL_NODE | Inr n \<Rightarrow> n)" w1] g
    by simp
  with assms p g show ?thesis
    by (auto simp: findSuccessor_def split: option.splits sum.splits)
qed

lemma findSuccessor_remote:
  assumes "\<not> (selfId s \<noteq> None \<and> selfId s = nodeId nodeQueried)"
  shows "fst (findSuccessor env s key nodeQueried w) =
           Inr (Some (case fst (rpc env nodeQueried
                                  (FindSuccessorRemoteHelper key nodeQueried) w) of
                        None \<Rightarrow> NULL_NODE | Some n \<Rightarrow> n))"
  using assms by (auto simp: findSuccessor_def split: option.splits prod.splits)

lemma findSuccessor_total:
  "\<exists>r. fst (findSuccessor env s key nodeQueried w) = Inr r"
  using findSuccessor_local [of s nodeQueried env key w]
        findSuccessor_remote [of s nodeQueried env key w]
  by (cases "selfId s \<noteq> None \<and> selfId s = nodeId nodeQueried") auto

lemma scanFingers_find:
  "k \<le> length (fingerTable s) \<Longrightarrow>
   \<forall>e \<in> set (take k (fingerTable s)). successor e \<noteq> None \<Longrightarrow>
   scanFingers env s key nq k =
     Inr (case find (\<lambda>f. isInModuloRange env (nodeId f) (nodeId nq) False key False)
             (rev (definedFingers k s)) of Some f \<Rightarrow> f | None \<Rightarrow> nq)"
proof (induction k)
  case 0
  then show ?case by (simp add: definedFingers_def map_filter_simps)
next
  case (Suc k)
  have t: "take (Suc k) (fingerTable s) = take k (fingerTable s) @ [fingerTable s ! k]"
    using Suc.prems(1) by (simp add: take_Suc_conv_app_nth)
  with Suc.prems(2) obtain f where f: "successor (fingerTable s ! k) = Some f" by auto
  have "definedFingers (Suc k) s = definedFingers k s @ [f]"
    using t f by (simp add: definedFingers_def map_filter_def)
  moreover have "scanFingers env s key nq k =
     Inr (case find (\<lambda>f. isInModuloRange env (nodeId f) (nodeId nq) False key False)
             (rev (definedFingers k s)) of Some f \<Rightarrow> f | None \<Rightarrow> nq)"
    using Suc.IH Suc.prems t by simp
  ultimately show ?case
    using Suc.prems(1) f by (simp add: fingerSuccessor_def)
qed

text \<open>The loop of \<open>findPredecessor\<close> is total by its definition; its counter never
  falls below \<open>-1\<close>, so a loop started at \<open>c\<close> runs its body at most \<open>c + 1\<close> times.\<close>

lemma findPredecessorLoop_counter:
  "findPredecessorLoop env s key nPrime nPrimeSuccessor c w = (Inr (n, c'), w') \<Longrightarrow>
   - 1 \<le> c \<Longrightarrow> - 1 \<le> c' \<and> c' \<le> c"
proof (induction env s key nPrime nPrimeSuccessor c w rule: findPredecessorLoop.induct)
  case (1 env s key nPrime nPrimeSuccessor c w)
  show ?case
  proof (cases nPrimeSuccessor)
    case None
    with "1.prems" show ?thesis
      by (subst (asm) findPredecessorLoop.simps) simp
  next
    case (Some ns)
    show ?thesis
    proof (cases "\<not> isInModuloRange env key (nodeId nPrime) False (nodeId ns) True
                   \<and> nodeId nPrime \<noteq> nodeId ns \<and> c \<ge> 0")
      case False
      with "1.prems" Some show ?thesis
        by (subst (asm) findPredecessorLoop.simps) auto
    next
      case True
      obtain r1 w1 where c1: "closestPrecedingFinger env s key nPrime w = (r1, w1)"
        by (cases "closestPrecedingFinger env s key nPrime w")
      obtain r2 w2 where g2:
        "getSuccessor env s (Some (case r1 of Inl _ \<Rightarrow> NULL_NODE | Inr n \<Rightarrow> n)) w1 = (r2, w2)"
        by (cases "getSuccessor env s (Some (case r1 of Inl _ \<Rightarrow> NULL_NODE | Inr n \<Rightarrow> n)) w1")
      have step: "findPredecessorLoop env s key
                    (case r1 of Inl _ \<Rightarrow> NULL_NODE | Inr n \<Rightarrow> n)
                    (case r2 of Inl _ \<Rightarrow> Some NULL_NODE | Inr n \<Rightarrow> n) (c - 1) w2
                  = (Inr (n, c'), w')"
        using "1.prems"(1) Some True c1 g2
        by (subst (asm) findPredecessorLoop.simps) simp
      have "- 1 \<le> c' \<and> c' \<le> c - 1"
        using "1.IH" [OF Some True c1 [symmetric] g2 [symmetric] step] True by simp
      then show ?thesis by simp
    qed
  qed
qed

subsection \<open>The successor list\<close>

lemma length_splice1: "length xs \<le> length (splice1 k v xs)"
  by (simp add: splice1_def)

lemma splice1_overwrites:
  "k \<le> length xs \<Longrightarrow>
   splice1 k v xs = (if k < length xs then xs[k := v] else xs @ [v])"
  by (simp add: splice1_def upd_conv_take_nth_drop)

lemma bulkUpSlot_length:
  "bulkUpSlot env s i x = Inr s' \<Longrightarrow> length (successorTable s) \<le> length (successorTable s')"
  using length_splice1 [of "successorTable s"]
  by (auto simp: bulkUpSlot_def split: option.splits if_splits)

lemma bulkUpLoop_length:
  "length (successorTable s) \<le> length (successorTable (fst (snd (bulkUpLoop env i s w))))"
proof (induction env i s w rule: bulkUpLoop.induct)
  case (1 env i s w)
  show ?case
  proof (cases "i < length (successorTable s) \<and> i \<le> HASH_BIT_LENGTH env")
    case False
    then show ?thesis by (subst bulkUpLoop.simps) auto
  next
    case True
    obtain r w1 where g: "getSuccessor env s (elemAt (successorTable s) i) w = (r, w1)"
      by (cases "getSuccessor env s (elemAt (successorTable s) i) w")
    show ?thesis
    proof (cases "DEBUGGING_LOCAL env \<and> (elemAt (successorTable s) i = None
                    \<or> (case r of Inl _ \<Rightarrow> Some NULL_NODE | Inr n \<Rightarrow> n) = None)")
      case dbg: True
      with True g show ?thesis
        by (subst bulkUpLoop.simps) simp
    next
      case dbg: False
      show ?thesis
      proof (cases "bulkUpSlot env s i (case r of Inl _ \<Rightarrow> Some NULL_NODE | Inr n \<Rightarrow> n)")
        case (Inl e)
        with True g dbg show ?thesis
          by (subst bulkUpLoop.simps) simp
      next
        case (Inr s')
        have "length (successorTable s') \<le> length (successorTable (fst (snd (bulkUpLoop env (Suc i) s' w1))))"
          using "1.IH" [OF True g [symmetric] _ Inr] dbg by blast
        moreover have "length (successorTable s) \<le> length (successorTable s')"
          using bulkUpSlot_length [OF Inr] .
        ultimately show ?thesis
          using True g dbg Inr
          by (subst bulkUpLoop.simps) simp
      qed
    qed
  qed
qed

lemma bulkUp_length:
  "length (successorTable s) \<le> length (successorTable (fst (snd (bulkUp env s w))))"
  using bulkUpLoop_length [of s env 0 w]
  by (auto simp: bulkUp_def split: sum.splits option.splits)

lemma pruneTailLoop_nonempty:
  "i < length (successorTable s) \<Longrightarrow>
   successorTable (fst (snd (pruneTailLoop env i ok s w))) \<noteq> []"
proof (induction env i ok s w rule: pruneTailLoop.induct)
  case (1 env i ok s w)
  show ?case
  proof (cases "(\<not> ok \<or> length (successorTable s) > HASH_BIT_LENGTH env) \<and> i > 0")
    case False
    with "1.prems" show ?thesis
      by (subst pruneTailLoop.simps) auto
  next
    case True
    obtain r w1 where g: "getSuccessor env s (elemAt (successorTable s) i) w = (r, w1)"
      by (cases "getSuccessor env s (elemAt (successorTable s) i) w")
    let ?ok = "(case r of Inr (Some ss) \<Rightarrow> (if nodeId ss \<noteq> None then True else ok) | _ \<Rightarrow> False)"
    let ?s = "(if \<not> ?ok \<or> i \<ge> HASH_BIT_LENGTH env
                then s\<lparr>successorTable := butlast (successorTable s)\<rparr> else s)"
    have "i - 1 < length (successorTable ?s)"
      using "1.prems" True by auto
    then have "successorTable (fst (snd (pruneTailLoop env (i - 1) ?ok ?s w1))) \<noteq> []"
      using "1.IH" [OF True g [symmetric]] by blast
    then show ?thesis
      using True g
      by (subst pruneTailLoop.simps) simp
  qed
qed

lemma reinsertSelf_nonempty: "successorTable (reinsertSelf s) \<noteq> []"
  by (cases "successorTable s") (simp_all add: reinsertSelf_def)

lemma setFingerSuccessor_nonempty:
  "fingerTable s \<noteq> [] \<Longrightarrow>
   \<exists>s'. setFingerSuccessor s 0 v = Inr s' \<and> fingerTable s' \<noteq> []
         \<and> successorTable s' = successorTable s"
  by (cases "fingerTable s") (simp_all add: setFingerSuccessor_def)

lemma pruneHeadLoop_returns:
  "fingerTable s \<noteq> [] \<Longrightarrow> \<exists>b. fst (pruneHeadLoop env ok s w) = Inr b"
proof (induction env ok s w rule: pruneHeadLoop.induct)
  case (1 env ok s w)
  show ?case
  proof (cases "\<not> ok \<and> length (successorTable s) > 0")
    case False
    then show ?thesis by (subst pruneHeadLoop.simps) auto
  next
    case go: True
    obtain r w1 where c: "checkSuccessor env s w = (r, w1)"
      by (cases "checkSuccessor env s w")
    from "1.prems" obtain f where f: "fingerSuccessor s 0 = Inr f"
      by (cases "fingerTable s") (simp_all add: fingerSuccessor_def)
    let ?s = "s\<lparr>successorTable := tl (successorTable s)\<rparr>"
    have "fingerTable ?s \<noteq> []" using "1.prems" by simp
    then obtain s' where s': "setFingerSuccessor ?s 0 (elemAt (tl (successorTable s)) 0) = Inr s'"
      and ne: "fingerTable s' \<noteq> []"
      using setFingerSuccessor_nonempty [of ?s "elemAt (tl (successorTable s)) 0"] by auto
    show ?thesis
    proof (cases r)
      case (Inl e)
      have "\<exists>b. fst (pruneHeadLoop env False s' w1) = Inr b"
        using "1.IH"(1) [OF go c [symmetric] Inl s' ne] .
      with go c Inl s' show ?thesis
        by (subst pruneHeadLoop.simps) simp
    next
      case (Inr b)
      show ?thesis
      proof (cases b)
        case True
        then have True': "b = True" by simp
        have "\<exists>b. fst (pruneHeadLoop env True
                          (s\<lparr>successorTable := setFirst (successorTable s) f\<rparr>) w1) = Inr b"
          using "1.IH"(2) [OF go c [symmetric] Inr True' f] "1.prems" by simp
        with go c Inr True' f show ?thesis
          by (subst pruneHeadLoop.simps) simp
      next
        case False
        then have False': "b = False" by simp
        have "\<exists>b. fst (pruneHeadLoop env False s' w1) = Inr b"
          using "1.IH"(3) [OF go c [symmetric] Inr False' s' ne] .
        with go c Inr False' s' show ?thesis
          by (subst pruneHeadLoop.simps) simp
      qed
    qed
  qed
qed

lemma syncOrPrune_returns:
  "fingerTable s \<noteq> [] \<Longrightarrow> \<exists>b. fst (syncOrPrune env s w) = Inr b"
proof -
  assume ne: "fingerTable s \<noteq> []"
  obtain r w0 where c: "checkSuccessor env s w = (r, w0)"
    by (cases "checkSuccessor env s w")
  from ne obtain f where f: "fingerSuccessor s 0 = Inr f"
    by (cases "fingerTable s") (simp_all add: fingerSuccessor_def)
  show ?thesis
  proof (cases "r = Inr True")
    case True
    with c f show ?thesis by (auto simp: syncOrPrune_def)
  next
    case False
    then have "syncOrPrune env s w = pruneHeadLoop env False s w0"
      using c by (cases r) (auto simp: syncOrPrune_def split: bool.splits)
    with pruneHeadLoop_returns [OF ne, of env False w0] show ?thesis by simp
  qed
qed

lemma updateSuccessorTable_after_sync:
  assumes dbg: "\<not> (DEBUGGING_LOCAL env
                  \<and> (case fingerSuccessor s 0 of Inr (Some _) \<Rightarrow> False | _ \<Rightarrow> True))"
    and sync: "fst (syncOrPrune env s w) = Inr b"
  shows "successorTable (fst (snd (updateSuccessorTable env s w))) \<noteq> []"
proof -
  obtain r1 s1 w1 where p1: "syncOrPrune env s w = (r1, s1, w1)"
    by (cases "syncOrPrune env s w")
  with sync have r1: "r1 = Inr b" by simp
  obtain r3 s3 w3 where p3: "bulkUp env (reinsertSelf s1) w1 = (r3, s3, w3)"
    by (cases "bulkUp env (reinsertSelf s1) w1")
  let ?t = "pruneTailLoop env (length (successorTable s3) - 1) False s3 w3"
  have "length (successorTable (reinsertSelf s1)) \<le> length (successorTable s3)"
    using bulkUp_length [of "reinsertSelf s1" env w1] p3 by simp
  with reinsertSelf_nonempty [of s1] have s3: "successorTable s3 \<noteq> []"
    by (cases "successorTable (reinsertSelf s1)") auto
  show ?thesis
  proof (cases r3)
    case (Inl e)
    with dbg p1 r1 p3 have "fst (snd (updateSuccessorTable env s w)) = s3"
      by (auto simp: updateSuccessorTable_def)
    with s3 show ?thesis by simp
  next
    case (Inr u)
    with dbg p1 r1 p3 have "fst (snd (updateSuccessorTable env s w)) = fst (snd ?t)"
      by (auto simp: updateSuccessorTable_def split: prod.splits)
    moreover from s3 have "length (successorTable s3) - 1 < length (successorTable s3)"
      by (cases "successorTable s3") auto
    then have "successorTable (fst (snd ?t)) \<noteq> []"
      by (rule pruneTailLoop_nonempty)
    ultimately show ?thesis by simp
  qed
qed

subsection \<open>Fixing fingers\<close>

lemma randomIndex_range:
  assumes "0 < random" "random < 1" "2 \<le> HASH_BIT_LENGTH env"
  shows "1 \<le> randomIndex env random \<and> randomIndex env random \<le> HASH_BIT_LENGTH env - 1"
proof -
  define x where "x = random * (real (HASH_BIT_LENGTH env) - 1)"
  define k where "k = \<lceil>x\<rceil>"
  have m: "1 \<le> real (HASH_BIT_LENGTH env) - 1" using assms(3) by simp
  have pos: "0 < x" using assms(1) m by (simp add: x_def)
  have le: "x \<le> real (HASH_BIT_LENGTH env) - 1"
    using assms(1,2) m by (simp add: x_def mult_left_le_one_le)
  have k1: "1 \<le> k" using pos by (simp add: k_def)
  have "real (HASH_BIT_LENGTH env) - 1 = of_int (int (HASH_BIT_LENGTH env) - 1)" by simp
  then have "\<lceil>real (HASH_BIT_LENGTH env) - 1\<rceil> = int (HASH_BIT_LENGTH env) - 1"
    by (simp only: ceiling_of_int)
  then have k2: "k \<le> int (HASH_BIT_LENGTH env) - 1"
    using ceiling_mono [OF le] by (simp add: k_def)
  have "randomIndex env random = nat k"
    by (simp add: randomIndex_def k_def x_def)
  with k1 k2 show ?thesis by linarith
qed

lemma fixFingers_effect:
  "fst (snd (fixFingers env random s w)) =
     (case fingerStart s (randomIndex env random) of
        Inl _ \<Rightarrow> s
      | Inr st \<Rightarrow>
          (case fst (findSuccessor env s st (encapsulateSelf s) w) of
             Inr (Some nSuccessor) \<Rightarrow>
               if nodeId nSuccessor \<noteq> None
               then s\<lparr>fingerTable := (fingerTable s)
                        [randomIndex env random :=
                           (fingerTable s ! randomIndex env random)\<lparr>successor := Some nSuccessor\<rparr>]\<rparr>
               else s
           | _ \<Rightarrow> s))"
  by (auto simp: fixFingers_def fingerStart_def setFingerSuccessor_def
           split: sum.splits option.splits prod.splits if_splits)

subsection \<open>Joining\<close>

text \<open>The test of \<open>joinCluster\<close> holds for a known identifier that is set, is not 0 and
  is not the node's own.\<close>

lemma joinsKnownPeer_iff:
  "joinsKnownPeer s \<longleftrightarrow> knownId s \<noteq> None \<and> knownId s \<noteq> Some 0 \<and> selfId s \<noteq> knownId s"
  by (cases "knownId s") (auto simp: joinsKnownPeer_def truthy_def)

section \<open>The claims\<close>

text \<open>
  C1.  \<open>findPredecessor\<close> always terminates, and the claim bounds a lookup by
  \<open>m * 2^m\<close> hops.  Termination holds: the loop is a total function whose counter goes
  down with every pass.  The bound does not: the loop tests \<open>iterationCounter >= 0\<close>
  before it decrements, so a loop started at \<open>m * 2^m\<close> passes \<open>m * 2^m + 1\<close> times.
  With \<open>m = 3\<close>, node 1 of the ring \<open>{1, 3, 5}\<close> looking up its own identifier finds no
  finger in the empty arc \<open>(1, 1)\<close>, stays at itself and leaves the loop with the counter
  at \<open>-1\<close>: 25 passes, each one call of \<open>closestPrecedingFinger\<close> and one of
  \<open>getSuccessor\<close>.  Against a peer that gives no progress, a lookup of key 0 sends 25
  requests for a successor, and 24 for a closest preceding finger after the first,
  local, call.
\<close>

theorem findPredecessor_exceeds_cap:
  "getSuccessor (testEnv silent) node1 (Some (encapsulateSelf node1)) []
     = (Inr (Some (peer 3)), [])
   \<and> 2 ^ HASH_BIT_LENGTH (testEnv silent) * int (HASH_BIT_LENGTH (testEnv silent)) = 24
   \<and> findPredecessorLoop (testEnv silent) node1 (Some 1) (encapsulateSelf node1)
       (Some (peer 3)) 24 []
     = (Inr (encapsulateSelf node1, - 1), [])
   \<and> fst (findPredecessor (testEnv silent) node1 (Some 1) []) = Inr (encapsulateSelf node1)
   \<and> length (successorRequests (snd (findPredecessor (testEnv stuckAnswer) node1 (Some 0) [])))
       = 25
   \<and> length (fingerRequests (snd (findPredecessor (testEnv stuckAnswer) node1 (Some 0) [])))
       = 24"
  by code_simp

theorem findPredecessor_exceeds_cap_witness:
  "24 - snd (projr (fst (findPredecessorLoop (testEnv silent) node1 (Some 1)
        (encapsulateSelf node1) (Some (peer 3)) 24 []))) = (25 :: int)"
  using findPredecessor_exceeds_cap by simp

text \<open>
  C2.  \<open>joinCluster\<close> joins through the known peer exactly when the peer's identifier
  differs from the node's own, for all identifiers in \<open>[0, 2^m)\<close>.  The code tests
  \<open>this.knownId && !(this.id == this.knownId)\<close>, and the identifier 0 is falsy: node 3,
  given a known peer that hashes to 0, passes the collision check, sends no request at
  all and makes itself its own predecessor, as the sole node of a new ring.
\<close>

theorem joinCluster_ignores_peer_zero:
  "selfId (computeIds (testEnv zeroAnswer) fresh3) = Some 3
   \<and> knownId (computeIds (testEnv zeroAnswer) fresh3) = Some 0
   \<and> joinsKnownPeer (computeIds (testEnv zeroAnswer) fresh3) = False
   \<and> fst (joinCluster (testEnv zeroAnswer) fresh3 []) = Inr ()
   \<and> predecessor (fst (snd (joinCluster (testEnv zeroAnswer) fresh3 []))) = peer 3
   \<and> snd (snd (joinCluster (testEnv zeroAnswer) fresh3 [])) = []"
  by code_simp

theorem joinCluster_ignores_peer_zero_witness:
  "predecessor (fst (snd (joinCluster (testEnv zeroAnswer) fresh3 [])))
     = encapsulateSelf (computeIds (testEnv zeroAnswer) fresh3)"
proof -
  have "encapsulateSelf (computeIds (testEnv zeroAnswer) fresh3) = peer 3" by code_simp
  with joinCluster_ignores_peer_zero show ?thesis by simp
qed

text \<open>
  C3.  Asked about the node itself, \<open>closestPrecedingFinger\<close> scans the fingers from index
  \<open>m - 1\<close> down to 0 and returns the first one whose successor's id lies strictly inside
  the arc \<open>(nodeQueried.id, id)\<close>, and \<open>nodeQueried\<close> itself when there is none.  The finger
  table is taken as the data model has it: \<open>m\<close> entries, each with a successor node.
\<close>

theorem closestPrecedingFinger_local:
  assumes "selfId s = nodeId nodeQueried"
    and "HASH_BIT_LENGTH env \<le> length (fingerTable s)"
    and "\<forall>e \<in> set (take (HASH_BIT_LENGTH env) (fingerTable s)). successor e \<noteq> None"
  shows "closestPrecedingFinger env s key nodeQueried w =
           (Inr (closestPrecedingFingerSpec env s key nodeQueried), w)"
  using assms
  by (simp add: closestPrecedingFinger_def closestPrecedingFingerSpec_def scanFingers_find)

theorem closestPrecedingFinger_local_witness:
  "closestPrecedingFinger (testEnv silent) node1 (Some 0) (encapsulateSelf node1) []
     = (Inr (peer 5), [])
   \<and> closestPrecedingFinger (testEnv silent) node1 (Some 2) (encapsulateSelf node1) []
     = (Inr (encapsulateSelf node1), [])"
proof -
  have a: "selfId node1 = nodeId (encapsulateSelf node1)"
    by (simp add: node1_def encapsulateSelf_def)
  have b: "HASH_BIT_LENGTH (testEnv silent) \<le> length (fingerTable node1)"
    by (simp add: node1_def testEnv_def)
  have c: "\<forall>e \<in> set (take (HASH_BIT_LENGTH (testEnv silent)) (fingerTable node1)).
             successor e \<noteq> None"
    by (simp add: node1_def testEnv_def)
  have d: "closestPrecedingFingerSpec (testEnv silent) node1 (Some 0) (encapsulateSelf node1)
             = peer 5"
    by code_simp
  have e: "closestPrecedingFingerSpec (testEnv silent) node1 (Some 2) (encapsulateSelf node1)
             = encapsulateSelf node1"
    by code_simp
  show ?thesis
    using closestPrecedingFinger_local [OF a b c, of "Some 0" "[]"]
          closestPrecedingFinger_local [OF a b c, of "Some 2" "[]"] d e
    by simp
qed

text \<open>
  C4.  The handler \<open>notify\<close> sets the predecessor to the incoming node exactly when the
  current predecessor's id is null or the incoming id lies strictly inside the arc
  \<open>(predecessor.id, selfId)\<close>; otherwise the predecessor stays as it is.
\<close>

theorem notify_sets_predecessor:
  "predecessor (notify env s nPrime) =
     (if nodeId (predecessor s) = None
         \<or> isInModuloRange env (nodeId nPrime) (nodeId (predecessor s)) False (selfId s) False
      then nPrime else predecessor s)"
  by (simp add: notify_def)

theorem notify_sets_predecessor_witness:
  "predecessor (notify (testEnv silent) node1 (peer 7)) = peer 7
   \<and> predecessor (notify (testEnv silent) node1 (peer 3)) = peer 5
   \<and> predecessor (notify (testEnv silent) (node1\<lparr>predecessor := NULL_NODE\<rparr>) (peer 3)) = peer 3"
  using notify_sets_predecessor [of "testEnv silent" node1 "peer 7"]
        notify_sets_predecessor [of "testEnv silent" node1 "peer 3"]
        notify_sets_predecessor [of "testEnv silent" "node1\<lparr>predecessor := NULL_NODE\<rparr>" "peer 3"]
  by (simp add: node1_def peer_def NULL_NODE_def testEnv_def isInModuloRangeSpec_def
        isInModuloRangeInt_def)

text \<open>
  C5.  \<open>findSuccessor\<close> never raises, whatever the key, the node queried, the state of the
  node and the answers of the network.  When the remote call rejects, the result is the
  null node.  On the local path the result is what \<open>getSuccessor\<close> gives for the node found
  by \<open>findPredecessor\<close>, with the null node standing in for either call when it raises; in
  particular, when \<open>findPredecessor\<close> raises and no peer answers at the null address, the
  result is the null node.
\<close>

theorem findSuccessor_never_raises:
  "(\<exists>r. fst (findSuccessor env s key nodeQueried w) = Inr r)
   \<and> (\<not> (selfId s \<noteq> None \<and> selfId s = nodeId nodeQueried)
        \<longrightarrow> fst (rpc env nodeQueried (FindSuccessorRemoteHelper key nodeQueried) w) = None
        \<longrightarrow> fst (findSuccessor env s key nodeQueried w) = Inr (Some NULL_NODE))
   \<and> (selfId s \<noteq> None \<and> selfId s = nodeId nodeQueried
        \<longrightarrow> fst (findSuccessor env s key nodeQueried w) =
              Inr (case fst (getSuccessor env s
                               (Some (case fst (findPredecessor env s key w) of
                                        Inl _ \<Rightarrow> NULL_NODE | Inr n \<Rightarrow> n))
                               (snd (findPredecessor env s key w))) of
                     Inl _ \<Rightarrow> Some NULL_NODE
                   | Inr r \<Rightarrow> r))
   \<and> (selfId s \<noteq> None \<and> selfId s = nodeId nodeQueried
        \<longrightarrow> isl (fst (findPredecessor env s key w))
        \<longrightarrow> fst (rpc env NULL_NODE (GetSuccessorRemoteHelper NULL_NODE)
                   (snd (findPredecessor env s key w))) = None
        \<longrightarrow> fst (findSuccessor env s key nodeQueried w) = Inr (Some NULL_NODE))"
proof (intro conjI impI)
  show "\<exists>r. fst (findSuccessor env s key nodeQueried w) = Inr r"
    by (rule findSuccessor_total)
next
  assume "\<not> (selfId s \<noteq> None \<and> selfId s = nodeId nodeQueried)"
    and "fst (rpc env nodeQueried (FindSuccessorRemoteHelper key nodeQueried) w) = None"
  then show "fst (findSuccessor env s key nodeQueried w) = Inr (Some NULL_NODE)"
    by (simp add: findSuccessor_remote)
next
  assume "selfId s \<noteq> None \<and> selfId s = nodeId nodeQueried"
  then show "fst (findSuccessor env s key nodeQueried w) =
              Inr (case fst (getSuccessor env s
                               (Some (case fst (findPredecessor env s key w) of
                                        Inl _ \<Rightarrow> NULL_NODE | Inr n \<Rightarrow> n))
                               (snd (findPredecessor env s key w))) of
                     Inl _ \<Rightarrow> Some NULL_NODE
                   | Inr r \<Rightarrow> r)"
    by (rule findSuccessor_local)
next
  assume loc: "selfId s \<noteq> None \<and> selfId s = nodeId nodeQueried"
    and fail: "isl (fst (findPredecessor env s key w))"
    and rej: "fst (rpc env NULL_NODE (GetSuccessorRemoteHelper NULL_NODE)
                   (snd (findPredecessor env s key w))) = None"
  from loc have "selfId s \<noteq> None" by blast
  then have "selfId s \<noteq> nodeId NULL_NODE" by (simp add: NULL_NODE_def)
  with fail rej show "fst (findSuccessor env s key nodeQueried w) = Inr (Some NULL_NODE)"
    by (cases "fst (findPredecessor env s key w)")
       (simp_all add: findSuccessor_local [OF loc] getSuccessor_remote)
qed

theorem findSuccessor_never_raises_witness:
  "fst (findSuccessor (testEnv silent) node1 (Some 4) (peer 3) []) = Inr (Some NULL_NODE)
   \<and> isl (fst (findPredecessor (testEnv silent) orphan1 (Some 4) []))
   \<and> fst (findSuccessor (testEnv silent) orphan1 (Some 4) (encapsulateSelf orphan1) [])
       = Inr (Some NULL_NODE)"
proof -
  have a: "\<not> (selfId node1 \<noteq> None \<and> selfId node1 = nodeId (peer 3))"
    by code_simp
  have b: "fst (rpc (testEnv silent) (peer 3) (FindSuccessorRemoteHelper (Some 4) (peer 3)) [])
             = None"
    by code_simp
  have c: "selfId orphan1 \<noteq> None \<and> selfId orphan1 = nodeId (encapsulateSelf orphan1)"
    by code_simp
  have d: "isl (fst (findPredecessor (testEnv silent) orphan1 (Some 4) []))"
    by code_simp
  have e: "fst (rpc (testEnv silent) NULL_NODE (GetSuccessorRemoteHelper NULL_NODE)
                  (snd (findPredecessor (testEnv silent) orphan1 (Some 4) []))) = None"
    by code_simp
  show ?thesis
    using findSuccessor_never_raises [of "testEnv silent" node1 "Some 4" "peer 3" "[]"]
          findSuccessor_never_raises
            [of "testEnv silent" orphan1 "Some 4" "encapsulateSelf orphan1" "[]"]
          a b c d e
    by blast
qed

text \<open>
  C6.  When the list is shorter than \<open>m\<close> and the node is not its own successor,
  \<open>updateSuccessorTable\<close> walks the slots and, for a slot whose successor answers with a
  non-null id outside the arc \<open>[selfId, successorTable[i].id]\<close>, puts the answer at
  position \<open>i + 1\<close>.  The claim reads this as an insertion that lengthens the list by one
  for each such slot.  The code calls \<open>splice(i + 1, 1, successorSuccessor)\<close>, which
  removes the entry at \<open>i + 1\<close> first: with the list \<open>[3, 5]\<close> and the answer 4 for slot 0
  the list becomes \<open>[3, 4]\<close>, not \<open>[3, 4, 5]\<close>, and keeps its length.
\<close>

theorem bulkUp_insert_counterexample:
  "successorTable (projr (bulkUpSlot (testEnv joiningAnswer) node1two 0 (Some (peer 4))))
     = [Some (peer 3), Some (peer 4)]
   \<and> successorTable (projr (bulkUpSlotSpec (testEnv joiningAnswer) node1two 0 (Some (peer 4))))
     = [Some (peer 3), Some (peer 4), Some (peer 5)]
   \<and> bulkUpSlot (testEnv joiningAnswer) node1two 0 (Some (peer 4))
     \<noteq> bulkUpSlotSpec (testEnv joiningAnswer) node1two 0 (Some (peer 4))
   \<and> length (successorTable (fst (snd (bulkUp (testEnv joiningAnswer) node1two []))))
     = length (successorTable node1two)"
  by code_simp

text \<open>
  C6, as amended.  Under the same guard the loop runs from slot 0; for a slot whose
  successor answers with a non-null id outside the arc, the answer overwrites the entry at
  position \<open>i + 1\<close>, and is appended when slot \<open>i\<close> is the last one, so the list grows by
  one entry only in that case; any other answer leaves the list as it is.
\<close>

theorem bulkUp_overwrites:
  "(length (successorTable s) < HASH_BIT_LENGTH env \<and> fingerSuccessor s 0 = Inr (Some f)
      \<and> selfId s \<noteq> nodeId f
      \<longrightarrow> bulkUp env s w = bulkUpLoop env 0 s w)
   \<and> (i < length (successorTable s) \<and> i \<le> HASH_BIT_LENGTH env \<and> \<not> DEBUGGING_LOCAL env
      \<longrightarrow> bulkUpLoop env i s w =
           (case getSuccessor env s (elemAt (successorTable s) i) w of
              (r, w1) \<Rightarrow>
                (case bulkUpSlot env s i (case r of Inl _ \<Rightarrow> Some NULL_NODE | Inr n \<Rightarrow> n) of
                   Inl e \<Rightarrow> (Inl e, s, w1)
                 | Inr s' \<Rightarrow> bulkUpLoop env (Suc i) s' w1)))
   \<and> (i < length (successorTable s) \<and> successorTable s ! i = Some t \<and> nodeId ss \<noteq> None
        \<and> \<not> isInModuloRange env (nodeId ss) (selfId s) True (nodeId t) True
      \<longrightarrow> bulkUpSlot env s i (Some ss) =
           Inr (s\<lparr>successorTable :=
                    (if i + 1 < length (successorTable s)
                     then (successorTable s)[i + 1 := Some ss]
                     else successorTable s @ [Some ss])\<rparr>))
   \<and> (i < length (successorTable s) \<and> successorTable s ! i = Some t
        \<and> (nodeId ss = None \<or> isInModuloRange env (nodeId ss) (selfId s) True (nodeId t) True)
      \<longrightarrow> bulkUpSlot env s i (Some ss) = Inr s)"
proof (intro conjI impI)
  assume "length (successorTable s) < HASH_BIT_LENGTH env \<and> fingerSuccessor s 0 = Inr (Some f)
      \<and> selfId s \<noteq> nodeId f"
  then show "bulkUp env s w = bulkUpLoop env 0 s w"
    by (simp add: bulkUp_def)
next
  assume "i < length (successorTable s) \<and> i \<le> HASH_BIT_LENGTH env \<and> \<not> DEBUGGING_LOCAL env"
  then show "bulkUpLoop env i s w =
           (case getSuccessor env s (elemAt (successorTable s) i) w of
              (r, w1) \<Rightarrow>
                (case bulkUpSlot env s i (case r of Inl _ \<Rightarrow> Some NULL_NODE | Inr n \<Rightarrow> n) of
                   Inl e \<Rightarrow> (Inl e, s, w1)
                 | Inr s' \<Rightarrow> bulkUpLoop env (Suc i) s' w1))"
    by (subst bulkUpLoop.simps) simp
next
  assume a: "i < length (successorTable s) \<and> successorTable s ! i = Some t \<and> nodeId ss \<noteq> None
        \<and> \<not> isInModuloRange env (nodeId ss) (selfId s) True (nodeId t) True"
  then have "splice1 (i + 1) (Some ss) (successorTable s) =
               (if i + 1 < length (successorTable s)
                then (successorTable s)[i + 1 := Some ss]
                else successorTable s @ [Some ss])"
    using splice1_overwrites [of "i + 1" "successorTable s" "Some ss"] by simp
  with a show "bulkUpSlot env s i (Some ss) =
           Inr (s\<lparr>successorTable :=
                    (if i + 1 < length (successorTable s)
                     then (successorTable s)[i + 1 := Some ss]
                     else successorTable s @ [Some ss])\<rparr>)"
    by (cases "nodeId ss") (simp_all add: bulkUpSlot_def elemAt_def)
next
  assume "i < length (successorTable s) \<and> successorTable s ! i = Some t
        \<and> (nodeId ss = None \<or> isInModuloRange env (nodeId ss) (selfId s) True (nodeId t) True)"
  then show "bulkUpSlot env s i (Some ss) = Inr s"
    by (auto simp: bulkUpSlot_def elemAt_def)
qed

theorem bulkUp_overwrites_witness:
  "bulkUp (testEnv joiningAnswer) node1two [] = bulkUpLoop (testEnv joiningAnswer) 0 node1two []
   \<and> bulkUpLoop (testEnv joiningAnswer) 0 node1two []
       = (Inr (), node1two\<lparr>successorTable := [Some (peer 3), Some (peer 4)]\<rparr>,
          [(peer 3, GetSuccessorRemoteHelper (peer 3)),
           (peer 4, GetSuccessorRemoteHelper (peer 4))])
   \<and> bulkUpSlot (testEnv joiningAnswer) node1two 0 (Some (peer 4))
       = Inr (node1two\<lparr>successorTable := [Some (peer 3), Some (peer 4)]\<rparr>)
   \<and> bulkUpSlot (testEnv joiningAnswer) node1two 1 (Some (peer 1)) = Inr node1two
   \<and> bulkUpSlot (testEnv joiningAnswer) node1two 1 (Some (peer 6))
       = Inr (node1two\<lparr>successorTable := [Some (peer 3), Some (peer 5), Some (peer 6)]\<rparr>)"
proof -
  have g: "length (successorTable node1two) < HASH_BIT_LENGTH (testEnv joiningAnswer)
           \<and> fingerSuccessor node1two 0 = Inr (Some (peer 3))
           \<and> selfId node1two \<noteq> nodeId (peer 3)"
    by code_simp
  have h: "0 < length (successorTable node1two) \<and> 0 \<le> HASH_BIT_LENGTH (testEnv joiningAnswer)
           \<and> \<not> DEBUGGING_LOCAL (testEnv joiningAnswer)"
    by code_simp
  have x: "(case getSuccessor (testEnv joiningAnswer) node1two
                   (elemAt (successorTable node1two) 0) [] of
              (r, w1) \<Rightarrow>
                (case bulkUpSlot (testEnv joiningAnswer) node1two 0
                        (case r of Inl _ \<Rightarrow> Some NULL_NODE | Inr n \<Rightarrow> n) of
                   Inl e \<Rightarrow> (Inl e, node1two, w1)
                 | Inr s' \<Rightarrow> bulkUpLoop (testEnv joiningAnswer) (Suc 0) s' w1))
           = (Inr (), node1two\<lparr>successorTable := [Some (peer 3), Some (peer 4)]\<rparr>,
              [(peer 3, GetSuccessorRemoteHelper (peer 3)),
               (peer 4, GetSuccessorRemoteHelper (peer 4))])"
    by code_simp
  have a: "0 < length (successorTable node1two) \<and> successorTable node1two ! 0 = Some (peer 3)
           \<and> nodeId (peer 4) \<noteq> None
           \<and> \<not> isInModuloRange (testEnv joiningAnswer) (nodeId (peer 4)) (selfId node1two) True
                 (nodeId (peer 3)) True"
    by code_simp
  have b: "1 < length (successorTable node1two) \<and> successorTable node1two ! 1 = Some (peer 5)
           \<and> (nodeId (peer 1) = None
               \<or> isInModuloRange (testEnv joiningAnswer) (nodeId (peer 1)) (selfId node1two) True
                   (nodeId (peer 5)) True)"
    by code_simp
  have c: "1 < length (successorTable node1two) \<and> successorTable node1two ! 1 = Some (peer 5)
           \<and> nodeId (peer 6) \<noteq> None
           \<and> \<not> isInModuloRange (testEnv joiningAnswer) (nodeId (peer 6)) (selfId node1two) True
                 (nodeId (peer 5)) True"
    by code_simp
  have l: "successorTable node1two = [Some (peer 3), Some (peer 5)]"
    by (simp add: node1two_def)
  show ?thesis
    using bulkUp_overwrites [of node1two "testEnv joiningAnswer" "peer 3" "[]" 0 "peer 3" "peer 4"]
          bulkUp_overwrites [of node1two "testEnv joiningAnswer" "peer 3" "[]" 1 "peer 5" "peer 1"]
          bulkUp_overwrites [of node1two "testEnv joiningAnswer" "peer 3" "[]" 1 "peer 5" "peer 6"]
          g h x a b c
    by (simp add: l)
qed

text \<open>
  C7.  \<open>fixFingers\<close> picks a random index in \<open>[1, m - 1]\<close> and overwrites that finger's
  successor only on success.  The overwrite is as claimed (lemma \<open>fixFingers_effect\<close>), and
  so is the index for a draw in \<open>(0, 1)\<close> (lemma \<open>randomIndex_range\<close>).  But
  \<open>Math.random()\<close> ranges over \<open>[0, 1)\<close>, and for the draw 0 the index
  \<open>Math.ceil(0 * (m - 1))\<close> is 0: the run looks up \<open>fingerTable[0].start\<close> and writes the
  answer back to \<open>fingerTable[0].successor\<close>.
\<close>

theorem fixFingers_index_zero:
  "randomIndex (testEnv ringAnswer) 0 = 0
   \<and> fixFingers (testEnv ringAnswer) 0 node1 [] = (Inr (), node1, [])"
  by (simp add: randomIndex_def testEnv_def fixFingers_def fingerStart_def node1_def
        findSuccessor_def encapsulateSelf_def findPredecessor_def getSuccessor_def
        fingerSuccessor_def peer_def isInModuloRangeSpec_def isInModuloRangeInt_def
        findPredecessorLoop.simps setFingerSuccessor_def)

theorem fixFingers_index_zero_witness:
  "\<not> 1 \<le> randomIndex (testEnv ringAnswer) 0"
  using fixFingers_index_zero by simp

text \<open>
  C8.  The remote wrappers relay the local methods: \<open>getSuccessorRemoteHelper\<close> replies
  with \<open>fingerTable[0].successor\<close>, which is what the local \<open>getSuccessor\<close> returns when
  the node asks itself, and \<open>findSuccessorRemoteHelper\<close> replies with the value of the
  local \<open>findSuccessor\<close>, which never raises.  The one state in which the first two differ
  is left out: with \<open>DEBUGGING_LOCAL\<close> on and the first finger's successor \<open>undefined\<close>, the
  log line of the local method raises.
\<close>

theorem remote_helpers_relay:
  "getSuccessorRemoteHelper s =
     (case fingerTable s of [] \<Rightarrow> Inl TypeError | e # _ \<Rightarrow> Inr (successor e))
   \<and> (\<not> DEBUGGING_LOCAL env \<or> fingerSuccessor s 0 \<noteq> Inr None
        \<longrightarrow> getSuccessor env s (Some (encapsulateSelf s)) w = (getSuccessorRemoteHelper s, w))
   \<and> findSuccessor env s key nodeQueried w =
        (Inr (fst (findSuccessorRemoteHelper env s key nodeQueried w)),
         snd (findSuccessorRemoteHelper env s key nodeQueried w))"
proof (intro conjI impI)
  show "getSuccessorRemoteHelper s =
     (case fingerTable s of [] \<Rightarrow> Inl TypeError | e # _ \<Rightarrow> Inr (successor e))"
    by (cases "fingerTable s") (simp_all add: getSuccessorRemoteHelper_def fingerSuccessor_def)
next
  assume "\<not> DEBUGGING_LOCAL env \<or> fingerSuccessor s 0 \<noteq> Inr None"
  then show "getSuccessor env s (Some (encapsulateSelf s)) w = (getSuccessorRemoteHelper s, w)"
    by (auto simp: getSuccessor_def getSuccessorRemoteHelper_def encapsulateSelf_def
             split: sum.splits)
next
  obtain r where "fst (findSuccessor env s key nodeQueried w) = Inr r"
    using findSuccessor_total [of env s key nodeQueried w] by auto
  then show "findSuccessor env s key nodeQueried w =
        (Inr (fst (findSuccessorRemoteHelper env s key nodeQueried w)),
         snd (findSuccessorRemoteHelper env s key nodeQueried w))"
    by (cases "findSuccessor env s key nodeQueried w") (simp add: findSuccessorRemoteHelper_def)
qed

theorem remote_helpers_relay_witness:
  "getSuccessor (testEnv ringAnswer) node1 (Some (encapsulateSelf node1)) []
     = (Inr (Some (peer 3)), [])
   \<and> getSuccessorRemoteHelper node1 = Inr (Some (peer 3))
   \<and> fst (findSuccessorRemoteHelper (testEnv ringAnswer) node1 (Some 4) (encapsulateSelf node1) [])
     = Some (peer 5)
   \<and> fst (findSuccessor (testEnv ringAnswer) node1 (Some 4) (encapsulateSelf node1) [])
     = Inr (Some (peer 5))"
proof -
  have a: "\<not> DEBUGGING_LOCAL (testEnv ringAnswer)" by (simp add: testEnv_def)
  have b: "(case fingerTable node1 of [] \<Rightarrow> Inl TypeError | e # _ \<Rightarrow> Inr (successor e))
             = Inr (Some (peer 3))"
    by (simp add: node1_def)
  have c: "fst (findSuccessorRemoteHelper (testEnv ringAnswer) node1 (Some 4)
                  (encapsulateSelf node1) []) = Some (peer 5)"
    by code_simp
  show ?thesis
    using remote_helpers_relay
            [of node1 "testEnv ringAnswer" "[]" "Some 4" "encapsulateSelf node1"] a b c
    by simp
qed

text \<open>
  C9.  Whenever \<open>updateSuccessorTable\<close> returns, the successor list holds at least one
  entry: an emptied list gets the node itself, the extension never shortens the list, and
  the pruning from the bottom stops above index 0.  The same holds when the call raises,
  for a node whose finger table and successor list were not empty before the call.
\<close>

theorem updateSuccessorTable_nonempty:
  "(fst (updateSuccessorTable env s w) = Inr ok
      \<longrightarrow> 1 \<le> length (successorTable (fst (snd (updateSuccessorTable env s w)))))
   \<and> (fingerTable s \<noteq> [] \<and> successorTable s \<noteq> []
      \<longrightarrow> 1 \<le> length (successorTable (fst (snd (updateSuccessorTable env s w)))))"
proof (intro conjI impI)
  assume ret: "fst (updateSuccessorTable env s w) = Inr ok"
  have dbg: "\<not> (DEBUGGING_LOCAL env
              \<and> (case fingerSuccessor s 0 of Inr (Some _) \<Rightarrow> False | _ \<Rightarrow> True))"
    using ret by (auto simp: updateSuccessorTable_def)
  obtain r1 s1 w1 where p1: "syncOrPrune env s w = (r1, s1, w1)"
    by (cases "syncOrPrune env s w")
  have "\<exists>b. r1 = Inr b"
    using ret dbg p1 by (cases r1) (simp_all add: updateSuccessorTable_def)
  then obtain b where "fst (syncOrPrune env s w) = Inr b" using p1 by auto
  from updateSuccessorTable_after_sync [OF dbg this]
  show "1 \<le> length (successorTable (fst (snd (updateSuccessorTable env s w))))"
    by (cases "successorTable (fst (snd (updateSuccessorTable env s w)))") auto
next
  assume ne: "fingerTable s \<noteq> [] \<and> successorTable s \<noteq> []"
  have "successorTable (fst (snd (updateSuccessorTable env s w))) \<noteq> []"
  proof (cases "DEBUGGING_LOCAL env
                  \<and> (case fingerSuccessor s 0 of Inr (Some _) \<Rightarrow> False | _ \<Rightarrow> True)")
    case True
    then have "fst (snd (updateSuccessorTable env s w)) = s"
      by (simp add: updateSuccessorTable_def)
    with ne show ?thesis by simp
  next
    case False
    from ne obtain b where "fst (syncOrPrune env s w) = Inr b"
      using syncOrPrune_returns [of s env w] by auto
    from updateSuccessorTable_after_sync [OF False this] show ?thesis .
  qed
  then show "1 \<le> length (successorTable (fst (snd (updateSuccessorTable env s w))))"
    by (cases "successorTable (fst (snd (updateSuccessorTable env s w)))") auto
qed

theorem updateSuccessorTable_nonempty_witness:
  "fst (updateSuccessorTable (testEnv ringAnswer) node1 []) = Inr True
   \<and> successorTable (fst (snd (updateSuccessorTable (testEnv ringAnswer) node1 [])))
       = [Some (peer 3), Some (peer 5)]
   \<and> fst (updateSuccessorTable (testEnv silent) node1 []) = Inl TypeError
   \<and> 1 \<le> length (successorTable (fst (snd (updateSuccessorTable (testEnv ringAnswer) node1 []))))
   \<and> 1 \<le> length (successorTable (fst (snd (updateSuccessorTable (testEnv silent) node1 []))))"
proof -
  have a: "fst (updateSuccessorTable (testEnv ringAnswer) node1 []) = Inr True"
    by code_simp
  have b: "successorTable (fst (snd (updateSuccessorTable (testEnv ringAnswer) node1 [])))
       = [Some (peer 3), Some (peer 5)]"
    by code_simp
  have c: "fst (updateSuccessorTable (testEnv silent) node1 []) = Inl TypeError"
    by code_simp
  have d: "fingerTable node1 \<noteq> [] \<and> successorTable node1 \<noteq> []"
    by (simp add: node1_def)
  show ?thesis
    using updateSuccessorTable_nonempty [of "testEnv ringAnswer" node1 "[]" True]
          updateSuccessorTable_nonempty [of "testEnv silent" node1 "[]" True]
          a b c d
    by simp
qed

text \<open>
  C10.  The handlers \<open>setPredecessor\<close> and \<open>notify\<close> change the predecessor only: the
  finger table, the successor list and the node's id, host and port are as before.
\<close>

theorem predecessor_handlers_frame:
  "setPredecessor s message = s\<lparr>predecessor := message\<rparr>
   \<and> notify env s nPrime = s\<lparr>predecessor := predecessor (notify env s nPrime)\<rparr>
   \<and> fingerTable (setPredecessor s message) = fingerTable s
   \<and> successorTable (setPredecessor s message) = successorTable s
   \<and> selfId (setPredecessor s message) = selfId s
   \<and> selfHost (setPredecessor s message) = selfHost s
   \<and> selfPort (setPredecessor s message) = selfPort s
   \<and> fingerTable (notify env s nPrime) = fingerTable s
   \<and> successorTable (notify env s nPrime) = successorTable s
   \<and> selfId (notify env s nPrime) = selfId s
   \<and> selfHost (notify env s nPrime) = selfHost s
   \<and> selfPort (notify env s nPrime) = selfPort s"
  by (simp add: setPredecessor_def notify_def)

theorem predecessor_handlers_frame_witness:
  "setPredecessor node1 (peer 7) = node1\<lparr>predecessor := peer 7\<rparr>
   \<and> notify (testEnv silent) node1 (peer 7) = node1\<lparr>predecessor := peer 7\<rparr>
   \<and> notify (testEnv silent) node1 (peer 3) = node1
   \<and> fingerTable (setPredecessor node1 (peer 7)) = fingerTable node1
   \<and> successorTable (notify (testEnv silent) node1 (peer 7)) = successorTable node1"
proof -
  have a: "predecessor (notify (testEnv silent) node1 (peer 7)) = peer 7" by code_simp
  have b: "predecessor (notify (testEnv silent) node1 (peer 3)) = predecessor node1" by code_simp
  show ?thesis
    using predecessor_handlers_frame [of node1 "peer 7" "testEnv silent" "peer 7"]
          predecessor_handlers_frame [of node1 "peer 7" "testEnv silent" "peer 3"] a b
    by simp
qed

end
